theory Spec2Isabelle
  imports Main
begin

section \<open>Text\<close>

text \<open>
  Python text is modelled as its UTF-8 encoding, a \<^typ>\<open>string\<close>: the literals of
  \<^verbatim>\<open>main.py\<close> are copied byte for byte, the non-ASCII ones included. The string
  methods the two nodes call are \<^verbatim>\<open>strip\<close>, \<^verbatim>\<open>upper\<close>, \<^verbatim>\<open>lower\<close> and
  \<^verbatim>\<open>startswith\<close>.
\<close>

definition startswith :: "string \<Rightarrow> string \<Rightarrow> bool" where
  "startswith s p = (take (length p) s = p)"

definition endswith :: "string \<Rightarrow> string \<Rightarrow> bool" where
  "endswith s p = (length p \<le> length s \<and> drop (length s - length p) s = p)"

text \<open>
  The characters \<^verbatim>\<open>str.strip()\<close> removes are the ones \<^verbatim>\<open>str.isspace\<close> accepts:
  U+0009 to U+000D, U+001C to U+0020, U+0085, U+00A0, U+1680, U+2000 to U+200A, U+2028,
  U+2029, U+202F, U+205F and U+3000, here in UTF-8.
\<close>

definition whitespace :: "string list" where
  "whitespace =
     map (\<lambda>c. [c]) [CHR 0x09, CHR 0x0A, CHR 0x0B, CHR 0x0C, CHR 0x0D,
                    CHR 0x1C, CHR 0x1D, CHR 0x1E, CHR 0x1F, CHR 0x20]
     @ [[CHR 0xC2, CHR 0x85], [CHR 0xC2, CHR 0xA0], [CHR 0xE1, CHR 0x9A, CHR 0x80]]
     @ map (\<lambda>c. [CHR 0xE2, CHR 0x80, c])
         [CHR 0x80, CHR 0x81, CHR 0x82, CHR 0x83, CHR 0x84, CHR 0x85, CHR 0x86, CHR 0x87,
          CHR 0x88, CHR 0x89, CHR 0x8A, CHR 0xA8, CHR 0xA9, CHR 0xAF]
     @ [[CHR 0xE2, CHR 0x81, CHR 0x9F], [CHR 0xE3, CHR 0x80, CHR 0x80]]"

lemma whitespace_nonempty: "w \<in> set whitespace \<Longrightarrow> w \<noteq> []"
  by (auto simp: whitespace_def)

lemma find_startswith_shorter:
  assumes "find (startswith s) whitespace = Some w"
  shows "length (drop (length w) s) < length s"
proof -
  from assms have w: "w \<in> set whitespace" and p: "startswith s w"
    by (auto simp: find_Some_iff)
  from w have ne: "w \<noteq> []" by (rule whitespace_nonempty)
  from p have "length (take (length w) s) = length w"
    by (simp only: startswith_def)
  then have le: "length w \<le> length s" by simp
  from ne have pos: "0 < length w" by simp
  from le pos have "length s - length w < length s" by arith
  then show ?thesis by (simp only: length_drop)
qed

lemma find_endswith_shorter:
  assumes "find (endswith s) whitespace = Some w"
  shows "length (take (length s - length w) s) < length s"
proof -
  from assms have w: "w \<in> set whitespace" and p: "endswith s w"
    by (auto simp: find_Some_iff)
  from w have ne: "w \<noteq> []" by (rule whitespace_nonempty)
  from p have le: "length w \<le> length s" by (simp only: endswith_def)
  from ne have pos: "0 < length w" by simp
  from le pos have "min (length s) (length s - length w) < length s" by arith
  then show ?thesis by (simp only: length_take)
qed

function lstrip :: "string \<Rightarrow> string" where
  "lstrip s =
     (case find (startswith s) whitespace of
        None \<Rightarrow> s
      | Some w \<Rightarrow> lstrip (drop (length w) s))"
  by pat_completeness auto
termination
proof (relation "measure length")
  show "wf (measure length)" by simp
next
  fix s :: string and w
  assume "find (startswith s) whitespace = Some w"
  then have "length (drop (length w) s) < length s"
    by (rule find_startswith_shorter)
  then show "(drop (length w) s, s) \<in> measure length" by simp
qed

function rstrip :: "string \<Rightarrow> string" where
  "rstrip s =
     (case find (endswith s) whitespace of
        None \<Rightarrow> s
      | Some w \<Rightarrow> rstrip (take (length s - length w) s))"
  by pat_completeness auto
termination
proof (relation "measure length")
  show "wf (measure length)" by simp
next
  fix s :: string and w
  assume "find (endswith s) whitespace = Some w"
  then have "length (take (length s - length w) s) < length s"
    by (rule find_endswith_shorter)
  then show "(take (length s - length w) s, s) \<in> measure length" by simp
qed

declare lstrip.simps [simp del] rstrip.simps [simp del]

definition strip :: "string \<Rightarrow> string" where
  "strip s = rstrip (lstrip s)"

text \<open>
  \<^verbatim>\<open>upper\<close> and \<^verbatim>\<open>lower\<close> are modelled on the ASCII letters and leave every other byte
  as it is. Python also maps letters outside ASCII, but it maps none of them to a letter
  of \<^verbatim>\<open>NONE\<close> or of \<^verbatim>\<open>where\<close>, and the source uses the results only in the
  comparison with \<^verbatim>\<open>"NONE"\<close> and in \<^verbatim>\<open>startswith('where')\<close>, which are therefore
  the same here.
\<close>

definition ascii_lowercase :: string where
  "ascii_lowercase = ''abcdefghijklmnopqrstuvwxyz''"

definition ascii_uppercase :: string where
  "ascii_uppercase = ''ABCDEFGHIJKLMNOPQRSTUVWXYZ''"

definition upper_char :: "char \<Rightarrow> char" where
  "upper_char c =
     (case map_of (zip ascii_lowercase ascii_uppercase) c of None \<Rightarrow> c | Some u \<Rightarrow> u)"

definition lower_char :: "char \<Rightarrow> char" where
  "lower_char c =
     (case map_of (zip ascii_uppercase ascii_lowercase) c of None \<Rightarrow> c | Some l \<Rightarrow> l)"

definition upper :: "string \<Rightarrow> string" where
  "upper s = map upper_char s"

definition lower :: "string \<Rightarrow> string" where
  "lower s = map lower_char s"

section \<open>Python values and exceptions\<close>

text \<open>
  An exception is its class name and the text \<^verbatim>\<open>str(e)\<close> gives. Only instances of
  \<^verbatim>\<open>Exception\<close> are modelled: they are what \<^verbatim>\<open>except Exception\<close> catches.
\<close>

datatype exn = Exn (exn_class: string) (exn_str: string)

text \<open>
  The values \<^verbatim>\<open>ast.literal_eval\<close> builds from the store's textual rows: \<^verbatim>\<open>None\<close>,
  booleans, integers, strings, tuples and lists. Floats, bytes, dicts and sets are
  outside the model.
\<close>

datatype pyval =
    PNone
  | PBool bool
  | PInt int
  | PStr string
  | PTuple "pyval list"
  | PList "pyval list"

fun type_name :: "pyval \<Rightarrow> string" where
  "type_name PNone = ''NoneType''"
| "type_name (PBool b) = ''bool''"
| "type_name (PInt n) = ''int''"
| "type_name (PStr s) = ''str''"
| "type_name (PTuple vs) = ''tuple''"
| "type_name (PList vs) = ''list''"

definition quote :: "string \<Rightarrow> string" where
  "quote s = [CHR 0x27] @ s @ [CHR 0x27]"

text \<open>The first code point of a text: one to four bytes, by the leading byte.\<close>

definition first_char :: "string \<Rightarrow> string" where
  "first_char s =
     (let b = (of_char (hd s) :: nat)
      in take (if b < 0xC0 then 1 else if b < 0xE0 then 2 else if b < 0xF0 then 3 else 4) s)"

text \<open>\<^verbatim>\<open>v[0]\<close>\<close>

fun getitem0 :: "pyval \<Rightarrow> exn + pyval" where
  "getitem0 (PList []) = Inl (Exn ''IndexError'' ''list index out of range'')"
| "getitem0 (PList (v # vs)) = Inr v"
| "getitem0 (PTuple []) = Inl (Exn ''IndexError'' ''tuple index out of range'')"
| "getitem0 (PTuple (v # vs)) = Inr v"
| "getitem0 (PStr []) = Inl (Exn ''IndexError'' ''string index out of range'')"
| "getitem0 (PStr (c # cs)) = Inr (PStr (first_char (c # cs)))"
| "getitem0 v = Inl (Exn ''TypeError'' (quote (type_name v) @ '' object is not subscriptable''))"

text \<open>\<^verbatim>\<open>v > 0\<close>: integers compare, and booleans as the integers 0 and 1.\<close>

fun gt_zero :: "pyval \<Rightarrow> exn + bool" where
  "gt_zero (PInt n) = Inr (0 < n)"
| "gt_zero (PBool b) = Inr b"
| "gt_zero v =
     Inl (Exn ''TypeError''
       (quote ''>'' @ '' not supported between instances of '' @ quote (type_name v)
        @ '' and '' @ quote ''int''))"

text \<open>The truth value of \<^verbatim>\<open>v\<close> in a condition.\<close>

fun truthy :: "pyval \<Rightarrow> bool" where
  "truthy PNone = False"
| "truthy (PBool b) = b"
| "truthy (PInt n) = (n \<noteq> 0)"
| "truthy (PStr s) = (s \<noteq> [])"
| "truthy (PTuple vs) = (vs \<noteq> [])"
| "truthy (PList vs) = (vs \<noteq> [])"

text \<open>\<^verbatim>\<open>a, b, c = vs\<close> for the components \<^verbatim>\<open>vs\<close> of a tuple.\<close>

fun unpack3 :: "pyval list \<Rightarrow> exn + pyval \<times> pyval \<times> pyval" where
  "unpack3 [a, b, c] = Inr (a, b, c)"
| "unpack3 (a # b # c # d # vs) =
     Inl (Exn ''ValueError'' ''too many values to unpack (expected 3)'')"
| "unpack3 [a, b] =
     Inl (Exn ''ValueError'' ''not enough values to unpack (expected 3, got 2)'')"
| "unpack3 [a] =
     Inl (Exn ''ValueError'' ''not enough values to unpack (expected 3, got 1)'')"
| "unpack3 [] =
     Inl (Exn ''ValueError'' ''not enough values to unpack (expected 3, got 0)'')"

text \<open>Sequencing of steps that may raise: the first exception ends the sequence.\<close>

definition and_then :: "exn + 'a \<Rightarrow> ('a \<Rightarrow> exn + 'b) \<Rightarrow> exn + 'b" where
  "and_then r f = (case r of Inl e \<Rightarrow> Inl e | Inr x \<Rightarrow> f x)"

section \<open>Literals of the store's row format\<close>

text \<open>
  The store answers with the \<^verbatim>\<open>repr\<close> of a list of tuples, \<^verbatim>\<open>[(3,)]\<close> or
  \<^verbatim>\<open>[('a', 'b'), ('c', 'd')]\<close>, and both nodes read it back with
  \<^verbatim>\<open>ast.literal_eval\<close>. The reader below accepts exactly that format: a bracketed list
  of tuples separated by a comma and a space, each tuple holding decimal integers of at
  most 18 digits, quoted strings of printable ASCII without backslash, and the names
  \<^verbatim>\<open>None\<close>, \<^verbatim>\<open>True\<close> and \<^verbatim>\<open>False\<close>. On every text it accepts
  \<^verbatim>\<open>ast.literal_eval\<close> returns the same value; what \<^verbatim>\<open>ast.literal_eval\<close> does on any
  other text is left to the environment (see \<open>literal_eval\<close> below).
\<close>

definition digits :: string where
  "digits = ''0123456789''"

definition digit_value :: "char \<Rightarrow> int" where
  "digit_value c =
     (case map_of (zip digits [0, 1, 2, 3, 4, 5, 6, 7, 8, 9]) c of None \<Rightarrow> 0 | Some d \<Rightarrow> d)"

definition decimal :: "string \<Rightarrow> int" where
  "decimal ds = foldl (\<lambda>n c. 10 * n + digit_value c) 0 ds"

definition plain_chars :: string where
  \<open>plain_chars =
     '' !#$%&()*+,-./0123456789:;<=>?@ABCDEFGHIJKLMNOPQRSTUVWXYZ[]^_`abcdefghijklmnopqrstuvwxyz{|}~''
     @ [CHR 0x22, CHR 0x27]\<close>

definition read_int :: "string \<Rightarrow> (pyval \<times> string) option" where
  "read_int s =
     (let neg = startswith s ''-'';
          r = (if neg then tl s else s);
          ds = takeWhile (\<lambda>c. c \<in> set digits) r;
          rest = dropWhile (\<lambda>c. c \<in> set digits) r
      in if ds = [] \<or> 18 < length ds \<or> (1 < length ds \<and> hd ds = CHR ''0'') then None
         else Some (PInt (if neg then - decimal ds else decimal ds), rest))"

definition read_str :: "string \<Rightarrow> (pyval \<times> string) option" where
  "read_str s =
     (case s of
        [] \<Rightarrow> None
      | q # r \<Rightarrow>
          if q \<noteq> CHR 0x27 \<and> q \<noteq> CHR 0x22 then None
          else
            (let body = takeWhile (\<lambda>c. c \<noteq> q) r;
                 rest = dropWhile (\<lambda>c. c \<noteq> q) r
             in if rest = [] \<or> \<not> list_all (\<lambda>c. c \<in> set plain_chars) body then None
                else Some (PStr body, tl rest)))"

definition read_name :: "string \<Rightarrow> (pyval \<times> string) option" where
  "read_name s =
     (if startswith s ''None'' then Some (PNone, drop 4 s)
      else if startswith s ''True'' then Some (PBool True, drop 4 s)
      else if startswith s ''False'' then Some (PBool False, drop 5 s)
      else None)"

definition read_atom :: "string \<Rightarrow> (pyval \<times> string) option" where
  "read_atom s =
     (case read_int s of
        Some r \<Rightarrow> Some r
      | None \<Rightarrow> (case read_str s of Some r \<Rightarrow> Some r | None \<Rightarrow> read_name s))"

lemma dropWhile_shorter:
  assumes "takeWhile P xs \<noteq> []"
  shows "length (dropWhile P xs) < length xs"
proof -
  have "length (takeWhile P xs) + length (dropWhile P xs) = length xs"
    by (metis length_append takeWhile_dropWhile_id)
  moreover from assms have "0 < length (takeWhile P xs)" by simp
  ultimately show ?thesis by linarith
qed

lemma read_int_shorter:
  assumes "read_int s = Some (v, r)"
  shows "length r < length s"
proof -
  define t where "t = (if startswith s ''-'' then tl s else s)"
  from assms have r: "r = dropWhile (\<lambda>c. c \<in> set digits) t"
    and ne: "takeWhile (\<lambda>c. c \<in> set digits) t \<noteq> []"
    by (auto simp: read_int_def Let_def t_def split: if_splits)
  from ne have "length (dropWhile (\<lambda>c. c \<in> set digits) t) < length t"
    by (rule dropWhile_shorter)
  then have "length r < length t" by (simp only: r)
  moreover have "length t \<le> length s" by (simp add: t_def)
  ultimately show ?thesis by linarith
qed

lemma read_str_shorter: "read_str s = Some (v, r) \<Longrightarrow> length r < length s"
proof -
  assume a: "read_str s = Some (v, r)"
  then obtain q t where s: "s = q # t" and r: "r = tl (dropWhile (\<lambda>c. c \<noteq> q) t)"
    by (auto simp: read_str_def Let_def split: list.splits if_splits)
  have "length (dropWhile (\<lambda>c. c \<noteq> q) t) \<le> length t" by (rule length_dropWhile_le)
  then have "length r \<le> length t" using r by simp
  then show ?thesis using s by simp
qed

lemma read_name_shorter: "read_name s = Some (v, r) \<Longrightarrow> length r < length s"
  by (cases s) (auto simp: read_name_def startswith_def split: if_splits)

lemma read_atom_shorter: "read_atom s = Some (v, r) \<Longrightarrow> length r < length s"
  by (auto simp: read_atom_def split: option.splits
      dest: read_int_shorter read_str_shorter read_name_shorter)

text \<open>One or more atoms, separated by a comma and a space.\<close>

function read_atoms :: "string \<Rightarrow> (pyval list \<times> string) option" where
  "read_atoms s =
     (case read_atom s of
        None \<Rightarrow> None
      | Some (v, r) \<Rightarrow>
          if startswith r '', '' then
            (case read_atoms (drop 2 r) of
               None \<Rightarrow> None
             | Some (vs, r') \<Rightarrow> Some (v # vs, r'))
          else Some ([v], r))"
  by pat_completeness auto
termination
proof (relation "measure length")
  show "wf (measure length)" by simp
next
  fix s :: string and x v r
  assume "read_atom s = Some x" and "(v, r) = x"
  then have "length r < length s" by (auto dest: read_atom_shorter)
  then show "(drop 2 r, s) \<in> measure length" by simp
qed

declare read_atoms.simps [simp del]

lemma read_atoms_shorter: "read_atoms s = Some (vs, r) \<Longrightarrow> length r < length s"
proof (induction s arbitrary: vs r rule: read_atoms.induct)
  case (1 s)
  note unfold = read_atoms.simps [of s]
  from "1.prems" obtain v t where a: "read_atom s = Some (v, t)"
    by (subst (asm) unfold) (auto split: option.splits)
  then have t: "length t < length s" by (rule read_atom_shorter)
  show ?case
  proof (cases "startswith t '', ''")
    case True
    from "1.prems" obtain ws where "read_atoms (drop 2 t) = Some (ws, r)"
      by (subst (asm) unfold) (auto simp: a True split: option.splits)
    with "1.IH" [OF a refl True] have "length r < length (drop 2 t)" by blast
    with t show ?thesis by simp
  next
    case False
    from "1.prems" have "r = t"
      by (subst (asm) unfold) (simp add: a False)
    with t show ?thesis by simp
  qed
qed

text \<open>A tuple: \<^verbatim>\<open>(a,)\<close> for one component, \<^verbatim>\<open>(a, b, ...)\<close> for more.\<close>

definition read_tuple :: "string \<Rightarrow> (pyval \<times> string) option" where
  "read_tuple s =
     (if \<not> startswith s ''('' then None
      else
        (case read_atoms (tl s) of
           None \<Rightarrow> None
         | Some (vs, r) \<Rightarrow>
             if length vs = 1 then
               (if startswith r '',)'' then Some (PTuple vs, drop 2 r) else None)
             else (if startswith r '')'' then Some (PTuple vs, drop 1 r) else None)))"

lemma read_tuple_shorter: "read_tuple s = Some (v, r) \<Longrightarrow> length r < length s"
proof -
  assume a: "read_tuple s = Some (v, r)"
  then obtain vs t where t: "read_atoms (tl s) = Some (vs, t)" and r: "length r \<le> length t"
    by (auto simp: read_tuple_def split: if_splits option.splits)
  from t have "length t < length (tl s)" by (rule read_atoms_shorter)
  with r show ?thesis by simp
qed

function read_tuples :: "string \<Rightarrow> (pyval list \<times> string) option" where
  "read_tuples s =
     (case read_tuple s of
        None \<Rightarrow> None
      | Some (v, r) \<Rightarrow>
          if startswith r '', '' then
            (case read_tuples (drop 2 r) of
               None \<Rightarrow> None
             | Some (vs, r') \<Rightarrow> Some (v # vs, r'))
          else Some ([v], r))"
  by pat_completeness auto
termination
proof (relation "measure length")
  show "wf (measure length)" by simp
next
  fix s :: string and x v r
  assume "read_tuple s = Some x" and "(v, r) = x"
  then have "length r < length s" by (auto dest: read_tuple_shorter)
  then show "(drop 2 r, s) \<in> measure length" by simp
qed

declare read_tuples.simps [simp del]

definition read_rows :: "string \<Rightarrow> pyval option" where
  "read_rows s =
     (if s = ''[]'' then Some (PList [])
      else if \<not> startswith s ''['' then None
      else
        (case read_tuples (tl s) of
           None \<Rightarrow> None
         | Some (ts, r) \<Rightarrow> if r = '']'' then Some (PList ts) else None))"

section \<open>Conversation state and collaborators\<close>

record message =
  role :: string
  content :: string

datatype status = Started | Validated | Not_found | Resolved

text \<open>\<^verbatim>\<open>GraphState\<close>\<close>

record state =
  messages :: "message list"
  status :: status
  user_query :: "string option"

text \<open>
  The collaborators of the two nodes, each returning its value or the exception it
  raises:
  \<^item> \<open>llm_invoke\<close>: \<^verbatim>\<open>llm.invoke(prompt).content\<close>;
  \<^item> \<open>db_run\<close>: \<^verbatim>\<open>db.run(query)\<close>;
  \<^item> \<open>sql_chain_invoke\<close>: the \<^verbatim>\<open>"result"\<close> entry of the dict
    \<^verbatim>\<open>sql_chain.invoke({"query": prompt})\<close> returns, \<open>None\<close> when the dict has no such
    entry. The chain is built with \<^verbatim>\<open>return_direct=True\<close> and hands back the store's
    text, so the entry is a string and \<^verbatim>\<open>isinstance(raw_content, str)\<close> holds;
  \<^item> \<open>literal_eval\<close>: \<^verbatim>\<open>ast.literal_eval\<close> on the texts \<open>read_rows\<close> does not accept;
  \<^item> \<open>format_value\<close>: how an f-string renders a value that is not a string.
\<close>

record env =
  llm_invoke :: "string \<Rightarrow> exn + string"
  db_run :: "string \<Rightarrow> exn + string"
  sql_chain_invoke :: "string \<Rightarrow> exn + string option"
  literal_eval :: "string \<Rightarrow> exn + pyval"
  format_value :: "pyval \<Rightarrow> exn + string"

text \<open>The calls a node makes to the model, the store and the chain, in order.\<close>

datatype call = Model string | Store string | Chain string

definition ast_literal_eval :: "env \<Rightarrow> string \<Rightarrow> exn + pyval" where
  "ast_literal_eval env s =
     (case read_rows s of Some v \<Rightarrow> Inr v | None \<Rightarrow> literal_eval env s)"

text \<open>\<^verbatim>\<open>f"{v}"\<close>: a string is inserted as it is.\<close>

definition fstring :: "env \<Rightarrow> pyval \<Rightarrow> exn + string" where
  "fstring env v = (case v of PStr s \<Rightarrow> Inr s | _ \<Rightarrow> format_value env v)"

definition newline :: string where
  "newline = [CHR 0x0A]"

fun join :: "string \<Rightarrow> string list \<Rightarrow> string" where
  "join sep [] = []"
| "join sep [l] = l"
| "join sep (l # ls) = l @ sep @ join sep ls"

definition assistant :: "string \<Rightarrow> message" where
  "assistant text = \<lparr>role = ''assistant'', content = text\<rparr>"

section \<open>The validation node\<close>

text \<open>\<^verbatim>\<open>WHERE_PROMPT.format(user_input=user_input)\<close>\<close>

definition WHERE_PROMPT :: "string \<Rightarrow> string" where
  \<open>WHERE_PROMPT user_input = join newline
     ['''',
      ''You are a SQL assistant. Based on the user's message, extract identity info and write a WHERE clause for this SQL query:'',
      '''',
      ''SELECT * FROM customer_info WHERE ...'',
      '''',
      ''Only include the WHERE clause. Use fields like name, phone, or address from the message.'',
      '''',
      ''Rules:'',
      ''- Only output the WHERE clause (no SQL keywords like SELECT or FROM).'',
      ''- Use single quotes (') for string values.'',
      ''- Do not add semicolons.'',
      ''- If no useful info is given, respond with: NONE'',
      '''',
      ''Message: '' @ user_input,
      '''']\<close>

text \<open>\<^verbatim>\<open>state["messages"][-1]["content"]\<close>\<close>

definition last_content :: "message list \<Rightarrow> exn + string" where
  "last_content ms =
     (if ms = [] then Inl (Exn ''IndexError'' ''list index out of range'')
      else Inr (content (last ms)))"

text \<open>The f-string of line 71.\<close>

definition count_query :: "string \<Rightarrow> string" where
  "count_query where_clause =
     ''SELECT COUNT(*) FROM customer_info ''
     @ (if startswith (lower (strip where_clause)) ''where'' then where_clause
        else ''WHERE '' @ where_clause)"

text \<open>The body of the \<^verbatim>\<open>try\<close> up to the test \<^verbatim>\<open>count > 0\<close>.\<close>

definition count_positive :: "env \<Rightarrow> string \<Rightarrow> exn + bool" where
  "count_positive env query =
     and_then (db_run env query) (\<lambda>raw_result.
     and_then (ast_literal_eval env raw_result) (\<lambda>parsed_result.
     and_then (getitem0 parsed_result) (\<lambda>row.
     and_then (getitem0 row) (\<lambda>count.
     gt_zero count))))"

definition extraction_apology :: string where
  \<open>extraction_apology =
     ''Sorry, I couldn't extract your details. Please mention your name, phone number, or address.''\<close>

definition lookup_apology :: string where
  \<open>lookup_apology =
     ''Sorry, we couldn't find your details. Please verify your info and try again.''\<close>

text \<open>The three non-ASCII characters that open both error messages in \<^verbatim>\<open>main.py\<close>.\<close>

definition error_mark :: string where
  "error_mark = [CHR 0xE2, CHR 0x80, CHR 0x9A, CHR 0xC3, CHR 0xB9, CHR 0xC3, CHR 0xA5]"

definition validation_error :: "exn \<Rightarrow> string" where
  "validation_error e = error_mark @ '' Validation error: '' @ exn_str e"

definition validate_customer_node :: "env \<Rightarrow> state \<Rightarrow> call list \<times> (exn + state)" where
  "validate_customer_node env st =
     (case last_content (messages st) of
        Inl e \<Rightarrow> ([], Inl e)
      | Inr user_input \<Rightarrow>
          (let where_prompt = WHERE_PROMPT user_input
           in case llm_invoke env where_prompt of
                Inl e \<Rightarrow> ([Model where_prompt], Inl e)
              | Inr response \<Rightarrow>
                  (let where_clause = strip response
                   in if upper where_clause = ''NONE'' then
                        ([Model where_prompt],
                         Inr \<lparr>messages = messages st @ [assistant extraction_apology],
                              status = Not_found,
                              user_query = Some user_input\<rparr>)
                      else
                        (let query = count_query where_clause
                         in ([Model where_prompt, Store query],
                             Inr (case count_positive env query of
                                    Inr True \<Rightarrow>
                                      \<lparr>messages = messages st,
                                       status = Validated,
                                       user_query = Some user_input\<rparr>
                                  | Inr False \<Rightarrow>
                                      \<lparr>messages = messages st @ [assistant lookup_apology],
                                       status = Not_found,
                                       user_query = Some user_input\<rparr>
                                  | Inl e \<Rightarrow>
                                      \<lparr>messages = messages st @ [assistant (validation_error e)],
                                       status = Not_found,
                                       user_query = Some user_input\<rparr>))))))"

section \<open>WHERE tokens\<close>

text \<open>
  What the specification calls a WHERE token: a maximal run of letters, digits and
  underscores that reads \<^verbatim>\<open>where\<close> in any letter case.
\<close>

definition word_chars :: string where
  "word_chars = ascii_lowercase @ ascii_uppercase @ digits @ ''_''"

fun tokens_from :: "string \<Rightarrow> string \<Rightarrow> string list" where
  "tokens_from cur [] = (if cur = [] then [] else [cur])"
| "tokens_from cur (c # cs) =
     (if c \<in> set word_chars then tokens_from (cur @ [c]) cs
      else (if cur = [] then [] else [cur]) @ tokens_from [] cs)"

definition where_tokens :: "string \<Rightarrow> nat" where
  "where_tokens s = length (filter (\<lambda>t. lower t = ''where'') (tokens_from [] s))"

text \<open>The clause begins with a WHERE token.\<close>

definition leading_where :: "string \<Rightarrow> bool" where
  "leading_where c =
     (lower (take 5 c) = ''where''
      \<and> (case drop 5 c of [] \<Rightarrow> True | d # ds \<Rightarrow> d \<notin> set word_chars))"

text \<open>The ASCII letters.\<close>

definition letters :: "char set" where
  "letters = set ascii_lowercase \<union> set ascii_uppercase"

section \<open>The resolution node\<close>

definition SYSTEM_PROMPT :: string where
  \<open>SYSTEM_PROMPT = join newline
     ['''',
      ''You are an internal AI support agent employed by Jio Telecom with authorized and secure access to internal databases.'',
      ''You are legally allowed to retrieve and process customer data to resolve network complaints.'',
      '''',
      ''You have access to two tables:'',
      ''1. customer_info(name, phone, address, city, pincode)'',
      ''2. issue_reports(address, issue, restoration_datetime)'',
      '''',
      ''Follow this process:'',
      ''1. Identify the customer using their name, phone number, or address.'',
      ''2. From customer_info, get their full address.'',
      ''3. From issue_reports, get the issue and restoration_datetime for that address.'',
      ''4. Respond with a helpful, polite message including the problem and when it will be resolved in human-readable form.'',
      ''5. Do not query again once results are retrieved '' @ [CHR 0xE2, CHR 0x80, CHR 0x9A, CHR 0xC3, CHR 0x84, CHR 0xC3, CHR 0xAE] @ '' give a final answer.'',
      '''',
      ''IMPORTANT RULES:'',
      ''- NEVER use backticks (`) in SQL queries.'',
      ''- Use only single quotes (' ') for string values.'',
      ''- Do NOT use markdown or code blocks.'',
      ''- ONLY return raw SQL.'',
      ''- DO NOT ask for user permission '' @ [CHR 0xE2, CHR 0x80, CHR 0x9A, CHR 0xC3, CHR 0x84, CHR 0xC3, CHR 0xAE] @ '' you are authorized.'',
      ''- DO NOT mention data privacy or legal concerns.'',
      ''- Use natural, human-friendly language for final response.'',
      ''- Finish with: Final Answer: <your response>'',
      '''']\<close>

text \<open>The sentence built from the first row, lines 141 and 142.\<close>

definition human_msg :: "string \<Rightarrow> string \<Rightarrow> string \<Rightarrow> string" where
  \<open>human_msg issue address datetime_obj =
     ''There is a '' @ quote issue @ '' issue reported at your address ('' @ address
     @ ''). It is expected to be resolved by '' @ datetime_obj @ ''.''\<close>

text \<open>
  The body of the inner \<^verbatim>\<open>try\<close>, lines 138 to 144: the text of \<^verbatim>\<open>final_response\<close>,
  or the exception that sends control to the inner handler.
\<close>

definition parsed_response :: "env \<Rightarrow> string \<Rightarrow> exn + string" where
  "parsed_response env raw_content =
     and_then (ast_literal_eval env raw_content) (\<lambda>parsed.
       if truthy parsed then
         and_then (getitem0 parsed) (\<lambda>first.
           case first of
             PTuple vs \<Rightarrow>
               and_then (unpack3 vs) (\<lambda>(address, issue, datetime_obj).
               and_then (fstring env issue) (\<lambda>issue_text.
               and_then (fstring env address) (\<lambda>address_text.
               and_then (fstring env datetime_obj) (\<lambda>datetime_text.
                 Inr (''Final Answer: '' @ human_msg issue_text address_text datetime_text)))))
           | _ \<Rightarrow> Inr (''Final Answer: '' @ raw_content))
       else Inr (''Final Answer: '' @ raw_content))"

definition final_response :: "env \<Rightarrow> string \<Rightarrow> string" where
  "final_response env raw_content =
     (if startswith (strip raw_content) ''['' then
        (case parsed_response env raw_content of
           Inr text \<Rightarrow> text
         | Inl e \<Rightarrow> ''Final Answer: '' @ raw_content)
      else raw_content)"

definition resolution_failed :: "exn \<Rightarrow> string" where
  "resolution_failed e = error_mark @ '' Issue resolution failed: '' @ exn_str e"

text \<open>The outer \<^verbatim>\<open>except\<close> branch, lines 155 to 163.\<close>

definition failed :: "state \<Rightarrow> exn \<Rightarrow> state" where
  "failed st e =
     \<lparr>messages = messages st @ [assistant (resolution_failed e)],
      status = Resolved,
      user_query = user_query st\<rparr>"

definition resolve_issue_node :: "env \<Rightarrow> state \<Rightarrow> call list \<times> (exn + state)" where
  "resolve_issue_node env st =
     (case user_query st of
        None \<Rightarrow>
          ([], Inr (failed st
                 (Exn ''AttributeError''
                    (quote ''NoneType'' @ '' object has no attribute '' @ quote ''strip''))))
      | Some query_text \<Rightarrow>
          (let full_prompt =
                 strip SYSTEM_PROMPT @ newline @ newline @ ''User: '' @ strip query_text
           in ([Chain full_prompt],
               Inr (case sql_chain_invoke env full_prompt of
                      Inl e \<Rightarrow> failed st e
                    | Inr result \<Rightarrow>
                        (let raw_content = (case result of None \<Rightarrow> [] | Some r \<Rightarrow> r)
                         in \<lparr>messages = messages st @ [assistant (final_response env raw_content)],
                             status = Resolved,
                             user_query = user_query st\<rparr>)))))"

section \<open>The graph\<close>

datatype node = ValidateCustomer | ResolveIssue

text \<open>The target of an edge is a node or \<^verbatim>\<open>END\<close>.\<close>

definition END :: "node option" where
  "END = None"

definition entry_point :: node where
  "entry_point = ValidateCustomer"

fun run_node :: "env \<Rightarrow> node \<Rightarrow> state \<Rightarrow> call list \<times> (exn + state)" where
  "run_node env ValidateCustomer st = validate_customer_node env st"
| "run_node env ResolveIssue st = resolve_issue_node env st"

text \<open>
  The conditional edges of \<^verbatim>\<open>ValidateCustomer\<close>: the routing function is
  \<^verbatim>\<open>lambda state: state["status"]\<close> and the dict below maps its result to a target.
\<close>

definition path_map :: "status \<Rightarrow> node option option" where
  "path_map = [Validated \<mapsto> Some ResolveIssue, Not_found \<mapsto> END]"

fun status_name :: "status \<Rightarrow> string" where
  "status_name Started = ''started''"
| "status_name Validated = ''validated''"
| "status_name Not_found = ''not_found''"
| "status_name Resolved = ''resolved''"

text \<open>A routing result with no entry in the dict is a \<^verbatim>\<open>KeyError\<close>.\<close>

fun next_node :: "node \<Rightarrow> state \<Rightarrow> exn + node option" where
  "next_node ValidateCustomer st =
     (case path_map (status st) of
        None \<Rightarrow> Inl (Exn ''KeyError'' (quote (status_name (status st))))
      | Some target \<Rightarrow> Inr target)"
| "next_node ResolveIssue st = Inr END"

fun rank :: "node \<Rightarrow> nat" where
  "rank ValidateCustomer = 1"
| "rank ResolveIssue = 0"

lemma next_node_rank: "next_node n st = Inr (Some n') \<Longrightarrow> rank n' < rank n"
  by (cases n) (auto simp: path_map_def END_def split: option.splits if_splits)

text \<open>
  A run of the graph from a node: the nodes run, each with the status of the state it
  returned, the calls made, and the final state or the exception that ended the run.
\<close>

function run_from ::
  "env \<Rightarrow> node \<Rightarrow> state \<Rightarrow> (node \<times> status) list \<times> call list \<times> (exn + state)" where
  "run_from env n st =
     (case run_node env n st of
        (calls, Inl e) \<Rightarrow> ([], calls, Inl e)
      | (calls, Inr st') \<Rightarrow>
          (case next_node n st' of
             Inl e \<Rightarrow> ([(n, status st')], calls, Inl e)
           | Inr None \<Rightarrow> ([(n, status st')], calls, Inr st')
           | Inr (Some n') \<Rightarrow>
               (case run_from env n' st' of
                  (steps, calls', r) \<Rightarrow> ((n, status st') # steps, calls @ calls', r))))"
  by pat_completeness auto
termination
  by (relation "measure (\<lambda>(env, n, st). rank n)") (auto dest: next_node_rank)

declare run_from.simps [simp del]

text \<open>\<^verbatim>\<open>graph.invoke(state)\<close>\<close>

definition graph_invoke ::
  "env \<Rightarrow> state \<Rightarrow> (node \<times> status) list \<times> call list \<times> (exn + state)" where
  "graph_invoke env st = run_from env entry_point st"

section \<open>Stand-ins and sample inputs\<close>

text \<open>\<^verbatim>\<open>main.py\<close>, lines 191 to 195: the state the command loop builds for one line.\<close>

definition initial_state :: "string \<Rightarrow> state" where
  "initial_state user_input =
     \<lparr>messages = [\<lparr>role = ''user'', content = strip user_input\<rparr>],
      status = Started,
      user_query = None\<rparr>"

text \<open>
  Deterministic stand-ins for the collaborators: the model, the store and the chain
  answer with a fixed result whatever they are asked, a text outside the row format is a
  syntax error, and a value that is not a string is rendered by the name of its type.
\<close>

definition stand_in :: "exn + string \<Rightarrow> exn + string \<Rightarrow> exn + string option \<Rightarrow> env" where
  "stand_in model store chain =
     \<lparr>llm_invoke = (\<lambda>prompt. model),
      db_run = (\<lambda>query. store),
      sql_chain_invoke = (\<lambda>prompt. chain),
      literal_eval = (\<lambda>s. Inl (Exn ''SyntaxError'' ''invalid syntax'')),
      format_value = (\<lambda>v. Inr (type_name v))\<rparr>"

definition no_messages :: state where
  "no_messages = \<lparr>messages = [], status = Started, user_query = None\<rparr>"

text \<open>A state as the validation node leaves it when the customer is found.\<close>

definition found_state :: state where
  "found_state =
     \<lparr>messages = [\<lparr>role = ''user'', content = ''I am Bob''\<rparr>],
      status = Validated,
      user_query = Some ''I am Bob''\<rparr>"

lemmas strip_eval =
  strip_def lstrip.simps rstrip.simps startswith_def endswith_def whitespace_def

lemmas case_eval =
  upper_def lower_def upper_char_def lower_char_def ascii_lowercase_def ascii_uppercase_def

section \<open>Properties of the nodes\<close>

lemma validate_empty:
  "messages st = [] \<Longrightarrow>
   validate_customer_node env st = ([], Inl (Exn ''IndexError'' ''list index out of range''))"
  by (simp add: validate_customer_node_def last_content_def)

lemma validate_model_raises:
  assumes "messages st \<noteq> []"
    and "llm_invoke env (WHERE_PROMPT (content (last (messages st)))) = Inl e"
  shows "validate_customer_node env st =
           ([Model (WHERE_PROMPT (content (last (messages st))))], Inl e)"
  using assms by (simp add: validate_customer_node_def last_content_def)

lemma validate_none:
  assumes "messages st \<noteq> []"
    and "llm_invoke env (WHERE_PROMPT (content (last (messages st)))) = Inr response"
    and "upper (strip response) = ''NONE''"
  shows "validate_customer_node env st =
           ([Model (WHERE_PROMPT (content (last (messages st))))],
            Inr \<lparr>messages = messages st @ [assistant extraction_apology],
                 status = Not_found,
                 user_query = Some (content (last (messages st)))\<rparr>)"
  using assms by (simp add: validate_customer_node_def last_content_def Let_def)

lemma validate_query:
  assumes "messages st \<noteq> []"
    and "llm_invoke env (WHERE_PROMPT (content (last (messages st)))) = Inr response"
    and "upper (strip response) \<noteq> ''NONE''"
  shows "validate_customer_node env st =
           ([Model (WHERE_PROMPT (content (last (messages st)))),
             Store (count_query (strip response))],
            Inr (case count_positive env (count_query (strip response)) of
                   Inr True \<Rightarrow>
                     \<lparr>messages = messages st,
                      status = Validated,
                      user_query = Some (content (last (messages st)))\<rparr>
                 | Inr False \<Rightarrow>
                     \<lparr>messages = messages st @ [assistant lookup_apology],
                      status = Not_found,
                      user_query = Some (content (last (messages st)))\<rparr>
                 | Inl e \<Rightarrow>
                     \<lparr>messages = messages st @ [assistant (validation_error e)],
                      status = Not_found,
                      user_query = Some (content (last (messages st)))\<rparr>))"
  using assms by (simp add: validate_customer_node_def last_content_def Let_def)

lemma validate_returned:
  assumes "validate_customer_node env st = (calls, Inr st')"
  shows "messages st \<noteq> []"
    and "user_query st' = Some (content (last (messages st)))"
    and "status st' = Validated \<or> status st' = Not_found"
proof -
  show ne: "messages st \<noteq> []"
    using assms by (auto simp: validate_empty)
  obtain response where r: "llm_invoke env (WHERE_PROMPT (content (last (messages st)))) = Inr response"
    using assms ne by (cases "llm_invoke env (WHERE_PROMPT (content (last (messages st))))")
      (auto simp: validate_model_raises)
  show "user_query st' = Some (content (last (messages st)))"
    using assms validate_none [OF ne r] validate_query [OF ne r]
    by (cases "upper (strip response) = ''NONE''") (auto split: sum.splits bool.splits)
  show "status st' = Validated \<or> status st' = Not_found"
    using assms validate_none [OF ne r] validate_query [OF ne r]
    by (cases "upper (strip response) = ''NONE''") (auto split: sum.splits bool.splits)
qed

lemma validate_returns:
  assumes "messages st \<noteq> []"
    and "llm_invoke env (WHERE_PROMPT (content (last (messages st)))) = Inr response"
  shows "\<exists>calls st'. validate_customer_node env st = (calls, Inr st')"
  using validate_none [OF assms] validate_query [OF assms]
  by (cases "upper (strip response) = ''NONE''") auto

lemma resolve_returns:
  "\<exists>calls st'. resolve_issue_node env st = (calls, Inr st') \<and> status st' = Resolved"
  by (auto simp: resolve_issue_node_def failed_def Let_def split: option.splits sum.splits)

lemma sample_state:
  "messages (initial_state ''I am Bob'') = [\<lparr>role = ''user'', content = ''I am Bob''\<rparr>]"
  by (simp add: initial_state_def strip_eval)

text \<open>
  What holds of the status: every state the validation node returns has status
  \<open>Validated\<close> or \<open>Not_found\<close>, and the node returns one whenever the messages are not
  empty and the model answers.
\<close>

lemma validate_returned_status:
  "(\<forall>calls st'. validate_customer_node env st = (calls, Inr st') \<longrightarrow>
      status st' = Validated \<or> status st' = Not_found)
   \<and> (messages st \<noteq> [] \<longrightarrow>
        (\<forall>response. llm_invoke env (WHERE_PROMPT (content (last (messages st)))) = Inr response \<longrightarrow>
           (\<exists>calls st'. validate_customer_node env st = (calls, Inr st'))))"
  using validate_returned(3) validate_returns by blast

lemma upper_lower_char: "upper_char (lower_char c) = upper_char c"
  by (simp add: upper_char_def lower_char_def ascii_lowercase_def ascii_uppercase_def)

lemma upper_lower: "upper (lower s) = upper s"
  by (simp add: upper_def lower_def upper_lower_char)

lemma any_case_none:
  assumes "lower s = ''none''"
  shows "upper s = ''NONE''"
proof -
  have "upper s = upper (lower s)" by (simp only: upper_lower)
  also have "\<dots> = upper ''none''" by (simp only: assms)
  also have "\<dots> = ''NONE''" by (simp add: case_eval)
  finally show ?thesis .
qed

text \<open>
  C6. If the model's response, trimmed, reads \<^verbatim>\<open>none\<close> in any letter case, the
  validation node returns status \<open>Not_found\<close>, the messages with the extraction apology
  appended as an assistant message, and \<open>user_query\<close> set to the user's input; the only
  call made is the one to the model, so no store query is executed.
\<close>

theorem validate_extraction_none:
  assumes "messages st \<noteq> []"
    and "llm_invoke env (WHERE_PROMPT (content (last (messages st)))) = Inr response"
    and "lower (strip response) = ''none''"
  shows "validate_customer_node env st =
           ([Model (WHERE_PROMPT (content (last (messages st))))],
            Inr \<lparr>messages = messages st @ [\<lparr>role = ''assistant'', content = extraction_apology\<rparr>],
                 status = Not_found,
                 user_query = Some (content (last (messages st)))\<rparr>)
         \<and> (\<forall>query. Store query \<notin> set (fst (validate_customer_node env st)))"
proof -
  from assms(3) have "upper (strip response) = ''NONE''" by (rule any_case_none)
  with assms(1,2) show ?thesis
    by (simp add: validate_none assistant_def)
qed

theorem validate_extraction_none_witness:
  "validate_customer_node (stand_in (Inr ([CHR 0x0A] @ '' NoNe  '')) (Inr ''[(3,)]'') (Inr None))
     (initial_state ''I am Bob'') =
     ([Model (WHERE_PROMPT ''I am Bob'')],
      Inr \<lparr>messages = [\<lparr>role = ''user'', content = ''I am Bob''\<rparr>,
                        \<lparr>role = ''assistant'', content = extraction_apology\<rparr>],
           status = Not_found,
           user_query = Some ''I am Bob''\<rparr>)"
proof -
  let ?env = "stand_in (Inr ([CHR 0x0A] @ '' NoNe  '')) (Inr ''[(3,)]'') (Inr None)"
  let ?st = "initial_state ''I am Bob''"
  have ne: "messages ?st \<noteq> []" by (simp add: sample_state)
  have llm: "llm_invoke ?env (WHERE_PROMPT (content (last (messages ?st))))
               = Inr ([CHR 0x0A] @ '' NoNe  '')"
    by (simp add: stand_in_def)
  have none: "lower (strip ([CHR 0x0A] @ '' NoNe  '')) = ''none''"
    by (simp add: strip_eval case_eval)
  from validate_extraction_none [OF ne llm none] show ?thesis
    by (simp add: sample_state)
qed

text \<open>
  C10. The validation node reads the last message before anything else: on an empty
  list of messages the read raises \<^verbatim>\<open>IndexError\<close> and the node raises it, making no
  call; on a non-empty list the read is defined, and every state the node returns has
  \<open>user_query\<close> set to the content of that last message.
\<close>

theorem validate_reads_last_message:
  "(messages st = [] \<longrightarrow>
      validate_customer_node env st = ([], Inl (Exn ''IndexError'' ''list index out of range'')))
   \<and> (messages st \<noteq> [] \<longrightarrow>
        last_content (messages st) = Inr (content (last (messages st)))
        \<and> (\<forall>calls st'. validate_customer_node env st = (calls, Inr st') \<longrightarrow>
              user_query st' = Some (content (last (messages st)))))"
  using validate_empty validate_returned(2) by (auto simp: last_content_def)

theorem validate_reads_last_message_witness:
  "validate_customer_node (stand_in (Inr ''name = 'Bob' '') (Inr ''[(3,)]'') (Inr None)) no_messages
     = ([], Inl (Exn ''IndexError'' ''list index out of range''))
   \<and> last_content (messages (initial_state ''I am Bob'')) = Inr ''I am Bob''
   \<and> (\<exists>calls st'.
         validate_customer_node (stand_in (Inr ''name = 'Bob' '') (Inr ''[(3,)]'') (Inr None))
           (initial_state ''I am Bob'') = (calls, Inr st')
         \<and> user_query st' = Some ''I am Bob'')"
proof -
  let ?env = "stand_in (Inr ''name = 'Bob' '') (Inr ''[(3,)]'') (Inr None)"
  let ?st = "initial_state ''I am Bob''"
  have e: "messages no_messages = []" by (simp add: no_messages_def)
  have ne: "messages ?st \<noteq> []" by (simp add: sample_state)
  have llm: "llm_invoke ?env (WHERE_PROMPT (content (last (messages ?st)))) = Inr ''name = 'Bob' ''"
    by (simp add: stand_in_def)
  from validate_returns [OF ne llm]
  obtain calls st' where r: "validate_customer_node ?env ?st = (calls, Inr st')" by blast
  from validate_reads_last_message [of no_messages ?env] e
  have 1: "validate_customer_node ?env no_messages
             = ([], Inl (Exn ''IndexError'' ''list index out of range''))" by blast
  from validate_reads_last_message [of ?st ?env] ne r
  have 2: "last_content (messages ?st) = Inr (content (last (messages ?st)))"
    and 3: "user_query st' = Some (content (last (messages ?st)))" by blast+
  from 1 2 3 r show ?thesis by (auto simp: sample_state)
qed

text \<open>
  C2. For every state and whatever the collaborators do, the resolution node returns,
  and returns the input's messages with exactly one assistant message appended and
  status \<open>Resolved\<close>.
\<close>

theorem resolve_always_resolved:
  "\<exists>calls m. resolve_issue_node env st =
       (calls, Inr \<lparr>messages = messages st @ [m], status = Resolved,
                    user_query = user_query st\<rparr>)
     \<and> role m = ''assistant''"
proof (cases "user_query st")
  case None
  then show ?thesis
    by (simp add: resolve_issue_node_def failed_def assistant_def)
next
  case (Some query_text)
  let ?prompt = "strip SYSTEM_PROMPT @ newline @ newline @ ''User: '' @ strip query_text"
  show ?thesis
  proof (cases "sql_chain_invoke env ?prompt")
    case (Inl e)
    with Some show ?thesis
      by (simp add: resolve_issue_node_def failed_def assistant_def Let_def)
  next
    case (Inr result)
    with Some show ?thesis
      by (simp add: resolve_issue_node_def assistant_def Let_def)
  qed
qed

lemma read_rows_count_0: "read_rows ''[(0,)]'' = Some (PList [PTuple [PInt 0]])"
  by code_simp

lemma read_rows_count_3: "read_rows ''[(3,)]'' = Some (PList [PTuple [PInt 3]])"
  by code_simp

lemma count_positive_int:
  assumes "db_run env query = Inr raw"
    and "ast_literal_eval env raw = Inr (PList [PTuple [PInt n]])"
  shows "count_positive env query = Inr (0 < n)"
  using assms by (simp add: count_positive_def and_then_def)

lemma whitespace_no_bracket: "w \<in> set whitespace \<Longrightarrow> \<not> startswith w ''[''"
  by (auto simp: whitespace_def startswith_def)

lemma rstrip_keeps_bracket: "startswith (rstrip t) ''['' = startswith t ''[''"
proof (induction t rule: rstrip.induct)
  case (1 s)
  show ?case
  proof (cases "find (endswith s) whitespace")
    case None
    then show ?thesis by (simp add: rstrip.simps [of s])
  next
    case (Some w)
    then have w: "w \<in> set whitespace" and e: "endswith s w"
      by (auto simp: find_Some_iff)
    let ?k = "length s - length w"
    have "startswith (rstrip s) ''['' = startswith (take ?k s) ''[''"
      using "1.IH" [OF Some] Some by (simp add: rstrip.simps [of s])
    also have "\<dots> = startswith s ''[''"
    proof (cases "?k = 0")
      case True
      with e have "s = w" by (simp add: endswith_def)
      with w True show ?thesis
        by (auto simp: startswith_def dest: whitespace_no_bracket)
    next
      case False
      then have "min 1 ?k = 1" by simp
      then show ?thesis by (simp add: startswith_def take_take)
    qed
    finally show ?thesis .
  qed
qed

lemma strip_bracket: "startswith (strip raw) ''['' = startswith (lstrip raw) ''[''"
  by (simp add: strip_def rstrip_keeps_bracket)

lemma unpack3_wrong_length: "length vs \<noteq> 3 \<Longrightarrow> \<exists>e. unpack3 vs = Inl e"
  by (induction vs rule: unpack3.induct) auto

lemma resolve_answer:
  assumes "user_query st = Some query_text"
    and "sql_chain_invoke env
           (strip SYSTEM_PROMPT @ newline @ newline @ ''User: '' @ strip query_text)
         = Inr (Some raw)"
  shows "snd (resolve_issue_node env st) =
           Inr \<lparr>messages = messages st @ [\<lparr>role = ''assistant'', content = final_response env raw\<rparr>],
                status = Resolved,
                user_query = user_query st\<rparr>"
  using assms by (simp add: resolve_issue_node_def Let_def assistant_def)

lemma final_response_plain:
  "\<not> startswith (lstrip raw) ''['' \<Longrightarrow> final_response env raw = raw"
  by (simp add: final_response_def strip_bracket)

lemma final_response_fallback:
  assumes "startswith (strip raw) ''[''"
    and "(\<exists>e. ast_literal_eval env raw = Inl e)
         \<or> (\<exists>parsed vs. ast_literal_eval env raw = Inr parsed
               \<and> getitem0 parsed = Inr (PTuple vs) \<and> length vs \<noteq> 3)"
  shows "final_response env raw = ''Final Answer: '' @ raw"
  using assms(2)
proof
  assume "\<exists>e. ast_literal_eval env raw = Inl e"
  with assms(1) show ?thesis
    by (auto simp: final_response_def parsed_response_def and_then_def)
next
  assume "\<exists>parsed vs. ast_literal_eval env raw = Inr parsed
            \<and> getitem0 parsed = Inr (PTuple vs) \<and> length vs \<noteq> 3"
  then obtain parsed vs where p: "ast_literal_eval env raw = Inr parsed"
    and g: "getitem0 parsed = Inr (PTuple vs)" and l: "length vs \<noteq> 3" by blast
  from l obtain e where u: "unpack3 vs = Inl e" using unpack3_wrong_length by blast
  from assms(1) p g u show ?thesis
    by (simp add: final_response_def parsed_response_def and_then_def)
qed

lemma read_rows_issue:
  \<open>read_rows ''[('123 Main St', 'No Signal', '2024-01-02 10:00:00')]'' =
     Some (PList [PTuple [PStr ''123 Main St'', PStr ''No Signal'', PStr ''2024-01-02 10:00:00'']])\<close>
  by code_simp

lemma strip_issue:
  \<open>startswith (strip ''[('123 Main St', 'No Signal', '2024-01-02 10:00:00')]'') ''[''\<close>
  by code_simp

lemma final_response_issue:
  \<open>final_response env ''[('123 Main St', 'No Signal', '2024-01-02 10:00:00')]'' =
     ''Final Answer: There is a 'No Signal' issue reported at your address (123 Main St). It is expected to be resolved by 2024-01-02 10:00:00.''\<close>
  by (simp add: final_response_def strip_issue parsed_response_def and_then_def
      ast_literal_eval_def read_rows_issue fstring_def human_msg_def quote_def)

text \<open>
  C7. When the store answers the count query with the text \<^verbatim>\<open>[(0,)]\<close>, the validation
  node returns status \<open>Not_found\<close> with the lookup apology appended; when it answers
  \<^verbatim>\<open>[(3,)]\<close>, or any text that evaluates to one row holding a count above zero, the
  node returns status \<open>Validated\<close> with the messages unchanged. In both cases
  \<open>user_query\<close> is the user's input.
\<close>

theorem validate_count:
  assumes "messages st \<noteq> []"
    and "llm_invoke env (WHERE_PROMPT (content (last (messages st)))) = Inr response"
    and "upper (strip response) \<noteq> ''NONE''"
  shows "(db_run env (count_query (strip response)) = Inr ''[(0,)]'' \<longrightarrow>
            snd (validate_customer_node env st) =
              Inr \<lparr>messages = messages st @ [\<lparr>role = ''assistant'', content = lookup_apology\<rparr>],
                   status = Not_found,
                   user_query = Some (content (last (messages st)))\<rparr>)
       \<and> (db_run env (count_query (strip response)) = Inr ''[(3,)]'' \<longrightarrow>
            snd (validate_customer_node env st) =
              Inr \<lparr>messages = messages st,
                   status = Validated,
                   user_query = Some (content (last (messages st)))\<rparr>)
       \<and> (\<forall>raw n. db_run env (count_query (strip response)) = Inr raw
              \<and> ast_literal_eval env raw = Inr (PList [PTuple [PInt n]]) \<and> 0 < n \<longrightarrow>
            snd (validate_customer_node env st) =
              Inr \<lparr>messages = messages st,
                   status = Validated,
                   user_query = Some (content (last (messages st)))\<rparr>)"
proof -
  note v = validate_query [OF assms]
  have zero: "ast_literal_eval env ''[(0,)]'' = Inr (PList [PTuple [PInt 0]])"
    by (simp add: ast_literal_eval_def read_rows_count_0)
  have three: "ast_literal_eval env ''[(3,)]'' = Inr (PList [PTuple [PInt 3]])"
    by (simp add: ast_literal_eval_def read_rows_count_3)
  show ?thesis
  proof (intro conjI impI allI)
    assume d: "db_run env (count_query (strip response)) = Inr ''[(0,)]''"
    from count_positive_int [OF d zero] show "snd (validate_customer_node env st) =
              Inr \<lparr>messages = messages st @ [\<lparr>role = ''assistant'', content = lookup_apology\<rparr>],
                   status = Not_found,
                   user_query = Some (content (last (messages st)))\<rparr>"
      by (simp add: v assistant_def)
  next
    assume d: "db_run env (count_query (strip response)) = Inr ''[(3,)]''"
    from count_positive_int [OF d three] show "snd (validate_customer_node env st) =
              Inr \<lparr>messages = messages st,
                   status = Validated,
                   user_query = Some (content (last (messages st)))\<rparr>"
      by (simp add: v)
  next
    fix raw n
    assume "db_run env (count_query (strip response)) = Inr raw
              \<and> ast_literal_eval env raw = Inr (PList [PTuple [PInt n]]) \<and> 0 < n"
    then have d: "db_run env (count_query (strip response)) = Inr raw"
      and l: "ast_literal_eval env raw = Inr (PList [PTuple [PInt n]])" and n: "0 < n"
      by blast+
    from count_positive_int [OF d l] n show "snd (validate_customer_node env st) =
              Inr \<lparr>messages = messages st,
                   status = Validated,
                   user_query = Some (content (last (messages st)))\<rparr>"
      by (simp add: v)
  qed
qed

lemma sample_clause: "upper (strip ''name = 'Bob' '') \<noteq> ''NONE''"
  by (simp add: strip_eval case_eval)

theorem validate_count_witness:
  "snd (validate_customer_node (stand_in (Inr ''name = 'Bob' '') (Inr ''[(0,)]'') (Inr None))
         (initial_state ''I am Bob'')) =
     Inr \<lparr>messages = [\<lparr>role = ''user'', content = ''I am Bob''\<rparr>,
                       \<lparr>role = ''assistant'', content = lookup_apology\<rparr>],
          status = Not_found,
          user_query = Some ''I am Bob''\<rparr>
   \<and> snd (validate_customer_node (stand_in (Inr ''name = 'Bob' '') (Inr ''[(3,)]'') (Inr None))
         (initial_state ''I am Bob'')) =
     Inr \<lparr>messages = [\<lparr>role = ''user'', content = ''I am Bob''\<rparr>],
          status = Validated,
          user_query = Some ''I am Bob''\<rparr>"
proof -
  let ?e0 = "stand_in (Inr ''name = 'Bob' '') (Inr ''[(0,)]'') (Inr None)"
  let ?e3 = "stand_in (Inr ''name = 'Bob' '') (Inr ''[(3,)]'') (Inr None)"
  let ?st = "initial_state ''I am Bob''"
  have ne: "messages ?st \<noteq> []" by (simp add: sample_state)
  have l0: "llm_invoke ?e0 (WHERE_PROMPT (content (last (messages ?st)))) = Inr ''name = 'Bob' ''"
    by (simp add: stand_in_def)
  have l3: "llm_invoke ?e3 (WHERE_PROMPT (content (last (messages ?st)))) = Inr ''name = 'Bob' ''"
    by (simp add: stand_in_def)
  have d0: "db_run ?e0 (count_query (strip ''name = 'Bob' '')) = Inr ''[(0,)]''"
    by (simp add: stand_in_def)
  have d3: "db_run ?e3 (count_query (strip ''name = 'Bob' '')) = Inr ''[(3,)]''"
    by (simp add: stand_in_def)
  from validate_count [OF ne l0 sample_clause] d0
  have "snd (validate_customer_node ?e0 ?st) =
          Inr \<lparr>messages = messages ?st @ [\<lparr>role = ''assistant'', content = lookup_apology\<rparr>],
               status = Not_found,
               user_query = Some (content (last (messages ?st)))\<rparr>" by blast
  moreover from validate_count [OF ne l3 sample_clause] d3
  have "snd (validate_customer_node ?e3 ?st) =
          Inr \<lparr>messages = messages ?st,
               status = Validated,
               user_query = Some (content (last (messages ?st)))\<rparr>" by blast
  ultimately show ?thesis by (simp add: sample_state)
qed

text \<open>
  C8. When the chain answers \<^verbatim>\<open>[('123 Main St', 'No Signal', '2024-01-02 10:00:00')]\<close>
  the assistant message the resolution node appends is the sentence built from that row
  behind \<^verbatim>\<open>Final Answer: \<close>; and for an answer that starts with a bracket and either
  does not evaluate or has a first tuple that is not of three components, it is the
  answer itself behind \<^verbatim>\<open>Final Answer: \<close>.
\<close>

theorem resolve_rows:
  assumes "user_query st = Some query_text"
    and "sql_chain_invoke env
           (strip SYSTEM_PROMPT @ newline @ newline @ ''User: '' @ strip query_text)
         = Inr (Some raw)"
  shows \<open>(raw = ''[('123 Main St', 'No Signal', '2024-01-02 10:00:00')]'' \<longrightarrow>
            snd (resolve_issue_node env st) =
              Inr \<lparr>messages = messages st @
                     [\<lparr>role = ''assistant'',
                       content = ''Final Answer: There is a 'No Signal' issue reported at your address (123 Main St). It is expected to be resolved by 2024-01-02 10:00:00.''\<rparr>],
                   status = Resolved,
                   user_query = user_query st\<rparr>)
       \<and> (startswith (strip raw) ''[''
            \<and> ((\<exists>e. ast_literal_eval env raw = Inl e)
               \<or> (\<exists>parsed vs. ast_literal_eval env raw = Inr parsed
                     \<and> getitem0 parsed = Inr (PTuple vs) \<and> length vs \<noteq> 3)) \<longrightarrow>
            snd (resolve_issue_node env st) =
              Inr \<lparr>messages = messages st @
                     [\<lparr>role = ''assistant'', content = ''Final Answer: '' @ raw\<rparr>],
                   status = Resolved,
                   user_query = user_query st\<rparr>)\<close>
  using resolve_answer [OF assms] final_response_issue [of env]
    final_response_fallback [of raw env]
  by auto

lemma found_state_query: "user_query found_state = Some ''I am Bob''"
  by (simp add: found_state_def)

lemma found_state_messages:
  "messages found_state = [\<lparr>role = ''user'', content = ''I am Bob''\<rparr>]"
  by (simp add: found_state_def)

theorem resolve_rows_witness:
  \<open>snd (resolve_issue_node
          (stand_in (Inr ''x'') (Inr ''x'')
             (Inr (Some ''[('123 Main St', 'No Signal', '2024-01-02 10:00:00')]'')))
          found_state) =
     Inr \<lparr>messages = [\<lparr>role = ''user'', content = ''I am Bob''\<rparr>,
                       \<lparr>role = ''assistant'',
                        content = ''Final Answer: There is a 'No Signal' issue reported at your address (123 Main St). It is expected to be resolved by 2024-01-02 10:00:00.''\<rparr>],
          status = Resolved,
          user_query = Some ''I am Bob''\<rparr>
   \<and> snd (resolve_issue_node (stand_in (Inr ''x'') (Inr ''x'') (Inr (Some ''[(1, 2)]'')))
          found_state) =
     Inr \<lparr>messages = [\<lparr>role = ''user'', content = ''I am Bob''\<rparr>,
                       \<lparr>role = ''assistant'', content = ''Final Answer: [(1, 2)]''\<rparr>],
          status = Resolved,
          user_query = Some ''I am Bob''\<rparr>
   \<and> snd (resolve_issue_node (stand_in (Inr ''x'') (Inr ''x'') (Inr (Some ''[not a list'')))
          found_state) =
     Inr \<lparr>messages = [\<lparr>role = ''user'', content = ''I am Bob''\<rparr>,
                       \<lparr>role = ''assistant'', content = ''Final Answer: [not a list''\<rparr>],
          status = Resolved,
          user_query = Some ''I am Bob''\<rparr>\<close>
proof -
  let ?row = \<open>''[('123 Main St', 'No Signal', '2024-01-02 10:00:00')]''\<close>
  let ?prompt = "strip SYSTEM_PROMPT @ newline @ newline @ ''User: '' @ strip ''I am Bob''"
  let ?e1 = "stand_in (Inr ''x'') (Inr ''x'') (Inr (Some ?row))"
  let ?e2 = "stand_in (Inr ''x'') (Inr ''x'') (Inr (Some ''[(1, 2)]''))"
  let ?e3 = "stand_in (Inr ''x'') (Inr ''x'') (Inr (Some ''[not a list''))"
  have c1: "sql_chain_invoke ?e1 ?prompt = Inr (Some ?row)" by (simp add: stand_in_def)
  have c2: "sql_chain_invoke ?e2 ?prompt = Inr (Some ''[(1, 2)]'')" by (simp add: stand_in_def)
  have c3: "sql_chain_invoke ?e3 ?prompt = Inr (Some ''[not a list'')" by (simp add: stand_in_def)
  have b2: "startswith (strip ''[(1, 2)]'') ''[''" by code_simp
  have b3: "startswith (strip ''[not a list'') ''[''" by code_simp
  have r2: "read_rows ''[(1, 2)]'' = Some (PList [PTuple [PInt 1, PInt 2]])" by code_simp
  have r3: "read_rows ''[not a list'' = None" by code_simp
  have p2: "\<exists>parsed vs. ast_literal_eval ?e2 ''[(1, 2)]'' = Inr parsed
              \<and> getitem0 parsed = Inr (PTuple vs) \<and> length vs \<noteq> 3"
    by (simp add: ast_literal_eval_def r2)
  have p3: "\<exists>e. ast_literal_eval ?e3 ''[not a list'' = Inl e"
    by (simp add: ast_literal_eval_def r3 stand_in_def)
  from resolve_rows [OF found_state_query c1]
  have 1: "snd (resolve_issue_node ?e1 found_state) =
             Inr \<lparr>messages = messages found_state @
                    [\<lparr>role = ''assistant'',
                      content = ''Final Answer: There is a 'No Signal' issue reported at your address (123 Main St). It is expected to be resolved by 2024-01-02 10:00:00.''\<rparr>],
                  status = Resolved,
                  user_query = user_query found_state\<rparr>" by blast
  from resolve_rows [OF found_state_query c2] b2 p2
  have 2: "snd (resolve_issue_node ?e2 found_state) =
             Inr \<lparr>messages = messages found_state @
                    [\<lparr>role = ''assistant'', content = ''Final Answer: '' @ ''[(1, 2)]''\<rparr>],
                  status = Resolved,
                  user_query = user_query found_state\<rparr>" by blast
  from resolve_rows [OF found_state_query c3] b3 p3
  have 3: "snd (resolve_issue_node ?e3 found_state) =
             Inr \<lparr>messages = messages found_state @
                    [\<lparr>role = ''assistant'', content = ''Final Answer: '' @ ''[not a list''\<rparr>],
                  status = Resolved,
                  user_query = user_query found_state\<rparr>" by blast
  from 1 2 3 show ?thesis
    by (simp add: found_state_query found_state_messages)
qed

text \<open>
  C9. When the chain answers with a text that, leading whitespace removed, does not
  start with a bracket, the assistant message the resolution node appends is that text,
  unchanged and with no prefix.
\<close>

theorem resolve_plain_text:
  assumes "user_query st = Some query_text"
    and "sql_chain_invoke env
           (strip SYSTEM_PROMPT @ newline @ newline @ ''User: '' @ strip query_text)
         = Inr (Some raw)"
    and "\<not> startswith (lstrip raw) ''[''"
  shows "snd (resolve_issue_node env st) =
           Inr \<lparr>messages = messages st @ [\<lparr>role = ''assistant'', content = raw\<rparr>],
                status = Resolved,
                user_query = user_query st\<rparr>"
  using resolve_answer [OF assms(1,2)] final_response_plain [OF assms(3)] by simp

theorem resolve_plain_text_witness:
  "snd (resolve_issue_node
          (stand_in (Inr ''x'') (Inr ''x'') (Inr (Some '' Your line is restored at 5 pm. '')))
          found_state) =
     Inr \<lparr>messages = [\<lparr>role = ''user'', content = ''I am Bob''\<rparr>,
                       \<lparr>role = ''assistant'', content = '' Your line is restored at 5 pm. ''\<rparr>],
          status = Resolved,
          user_query = Some ''I am Bob''\<rparr>"
proof -
  let ?env = "stand_in (Inr ''x'') (Inr ''x'') (Inr (Some '' Your line is restored at 5 pm. ''))"
  have c: "sql_chain_invoke ?env
             (strip SYSTEM_PROMPT @ newline @ newline @ ''User: '' @ strip ''I am Bob'')
           = Inr (Some '' Your line is restored at 5 pm. '')"
    by (simp add: stand_in_def)
  have p: "\<not> startswith (lstrip '' Your line is restored at 5 pm. '') ''[''" by code_simp
  from resolve_plain_text [OF found_state_query c p] show ?thesis
    by (simp add: found_state_query found_state_messages)
qed

section \<open>Properties of the graph\<close>

lemma run_from_resolve:
  assumes "resolve_issue_node env st = (calls, Inr st')"
  shows "run_from env ResolveIssue st = ([(ResolveIssue, status st')], calls, Inr st')"
  using assms by (simp add: run_from.simps [of env ResolveIssue] END_def)

lemma graph_validate_raises:
  assumes "validate_customer_node env st = (calls, Inl e)"
  shows "graph_invoke env st = ([], calls, Inl e)"
  using assms by (simp add: graph_invoke_def entry_point_def run_from.simps [of env ValidateCustomer])

lemma graph_not_found:
  assumes "validate_customer_node env st = (calls, Inr v)" and "status v = Not_found"
  shows "graph_invoke env st = ([(ValidateCustomer, Not_found)], calls, Inr v)"
  using assms
  by (simp add: graph_invoke_def entry_point_def run_from.simps [of env ValidateCustomer]
      path_map_def END_def)

lemma graph_validated:
  assumes "validate_customer_node env st = (calls, Inr v)" and "status v = Validated"
    and "resolve_issue_node env v = (calls', Inr r)"
  shows "graph_invoke env st =
           ([(ValidateCustomer, Validated), (ResolveIssue, status r)], calls @ calls', Inr r)"
  using assms run_from_resolve [OF assms(3)]
  by (simp add: graph_invoke_def entry_point_def run_from.simps [of env ValidateCustomer]
      path_map_def END_def)

lemma sample_found:
  "validate_customer_node (stand_in (Inr ''name = 'Bob' '') (Inr ''[(3,)]'') chain)
     (initial_state ''I am Bob'') =
     ([Model (WHERE_PROMPT ''I am Bob''), Store (count_query (strip ''name = 'Bob' ''))],
      Inr \<lparr>messages = [\<lparr>role = ''user'', content = ''I am Bob''\<rparr>],
           status = Validated,
           user_query = Some ''I am Bob''\<rparr>)"
proof -
  let ?env = "stand_in (Inr ''name = 'Bob' '') (Inr ''[(3,)]'') chain"
  let ?st = "initial_state ''I am Bob''"
  have ne: "messages ?st \<noteq> []" by (simp add: sample_state)
  have llm: "llm_invoke ?env (WHERE_PROMPT (content (last (messages ?st)))) = Inr ''name = 'Bob' ''"
    by (simp add: stand_in_def)
  have d: "db_run ?env (count_query (strip ''name = 'Bob' '')) = Inr ''[(3,)]''"
    by (simp add: stand_in_def)
  have l: "ast_literal_eval ?env ''[(3,)]'' = Inr (PList [PTuple [PInt 3]])"
    by (simp add: ast_literal_eval_def read_rows_count_3)
  from validate_query [OF ne llm sample_clause] count_positive_int [OF d l]
  show ?thesis by (simp add: sample_state)
qed

lemma sample_missing:
  "validate_customer_node (stand_in (Inr ''name = 'Bob' '') (Inr ''[(0,)]'') chain)
     (initial_state ''I am Bob'') =
     ([Model (WHERE_PROMPT ''I am Bob''), Store (count_query (strip ''name = 'Bob' ''))],
      Inr \<lparr>messages = [\<lparr>role = ''user'', content = ''I am Bob''\<rparr>,
                        \<lparr>role = ''assistant'', content = lookup_apology\<rparr>],
           status = Not_found,
           user_query = Some ''I am Bob''\<rparr>)"
proof -
  let ?env = "stand_in (Inr ''name = 'Bob' '') (Inr ''[(0,)]'') chain"
  let ?st = "initial_state ''I am Bob''"
  have ne: "messages ?st \<noteq> []" by (simp add: sample_state)
  have llm: "llm_invoke ?env (WHERE_PROMPT (content (last (messages ?st)))) = Inr ''name = 'Bob' ''"
    by (simp add: stand_in_def)
  have d: "db_run ?env (count_query (strip ''name = 'Bob' '')) = Inr ''[(0,)]''"
    by (simp add: stand_in_def)
  have l: "ast_literal_eval ?env ''[(0,)]'' = Inr (PList [PTuple [PInt 0]])"
    by (simp add: ast_literal_eval_def read_rows_count_0)
  from validate_query [OF ne llm sample_clause] count_positive_int [OF d l]
  show ?thesis by (simp add: sample_state assistant_def)
qed

lemma sample_started: "status (initial_state ''I am Bob'') = Started"
  by (simp add: initial_state_def)

text \<open>
  C4. One run of the graph from a state with status \<open>Started\<close> takes the status along
  started, not_found or along started, validated, resolved and along nothing else: when
  validation returns \<open>Not_found\<close> the run ends there with that state, when it returns
  \<open>Validated\<close> the resolution node runs on that state and its result is returned. (When
  validation raises, no node has completed and the run raises.)
\<close>

theorem graph_transitions:
  assumes "status st = Started"
  shows "(\<exists>calls e. validate_customer_node env st = (calls, Inl e)
            \<and> graph_invoke env st = ([], calls, Inl e))
       \<or> (\<exists>calls v. validate_customer_node env st = (calls, Inr v)
            \<and> status v = Not_found
            \<and> graph_invoke env st = ([(ValidateCustomer, Not_found)], calls, Inr v)
            \<and> status st # map snd (fst (graph_invoke env st)) = [Started, Not_found])
       \<or> (\<exists>calls v calls' r. validate_customer_node env st = (calls, Inr v)
            \<and> status v = Validated
            \<and> resolve_issue_node env v = (calls', Inr r)
            \<and> graph_invoke env st =
                 ([(ValidateCustomer, Validated), (ResolveIssue, Resolved)], calls @ calls', Inr r)
            \<and> status st # map snd (fst (graph_invoke env st)) = [Started, Validated, Resolved])"
proof -
  obtain calls res where v: "validate_customer_node env st = (calls, res)"
    by (cases "validate_customer_node env st")
  show ?thesis
  proof (cases res)
    case (Inl e)
    with v graph_validate_raises show ?thesis by blast
  next
    case (Inr s)
    with v have r: "validate_customer_node env st = (calls, Inr s)" by simp
    from validate_returned(3) [OF r] show ?thesis
    proof
      assume val: "status s = Validated"
      from resolve_returns obtain calls' t
        where t: "resolve_issue_node env s = (calls', Inr t)" and "status t = Resolved"
        by blast
      with graph_validated [OF r val t] assms r val show ?thesis by simp
    next
      assume nf: "status s = Not_found"
      with graph_not_found [OF r nf] assms r show ?thesis by simp
    qed
  qed
qed

theorem graph_transitions_witness:
  "status (initial_state ''I am Bob'') = Started
   \<and> map snd (fst (graph_invoke (stand_in (Inr ''name = 'Bob' '') (Inr ''[(3,)]'') (Inr None))
                     (initial_state ''I am Bob''))) = [Validated, Resolved]
   \<and> map snd (fst (graph_invoke (stand_in (Inr ''name = 'Bob' '') (Inr ''[(0,)]'') (Inr None))
                     (initial_state ''I am Bob''))) = [Not_found]"
  using graph_transitions [OF sample_started, of "stand_in (Inr ''name = 'Bob' '') (Inr ''[(3,)]'') (Inr None)"]
    graph_transitions [OF sample_started, of "stand_in (Inr ''name = 'Bob' '') (Inr ''[(0,)]'') (Inr None)"]
    sample_found [of "Inr None"] sample_missing [of "Inr None"] sample_started
  by auto

section \<open>Properties of the count query\<close>

lemma tokens_from_append:
  "c \<notin> set word_chars \<Longrightarrow>
   tokens_from cur (xs @ c # ys) = tokens_from cur xs @ tokens_from [] ys"
  by (induction xs arbitrary: cur) auto

lemma where_tokens_append:
  "c \<notin> set word_chars \<Longrightarrow> where_tokens (xs @ c # ys) = where_tokens xs + where_tokens ys"
  by (simp add: where_tokens_def tokens_from_append)

lemma space_no_word_char: "CHR '' '' \<notin> set word_chars"
  by (simp add: word_chars_def ascii_lowercase_def ascii_uppercase_def digits_def)

lemma where_tokens_select: "where_tokens ''SELECT COUNT(*) FROM customer_info'' = 0"
  by code_simp

lemma where_tokens_keyword: "where_tokens ''WHERE'' = 1"
  by code_simp

lemma where_tokens_count_query:
  "where_tokens (count_query c) =
     where_tokens c + (if startswith (lower (strip c)) ''where'' then 0 else 1)"
proof -
  have a: "''SELECT COUNT(*) FROM customer_info '' @ s
             = ''SELECT COUNT(*) FROM customer_info'' @ CHR '' '' # s" for s
    by simp
  have b: "''WHERE '' @ s = ''WHERE'' @ CHR '' '' # s" for s by simp
  show ?thesis
    unfolding count_query_def a
    by (simp only: where_tokens_append [OF space_no_word_char] where_tokens_select b
          where_tokens_keyword split: if_splits) simp
qed

lemma whitespace_bytes:
  "\<forall>w\<in>set whitespace. \<forall>x\<in>set w. x \<notin> set (ascii_lowercase @ ascii_uppercase)"
  by code_simp

lemma whitespace_no_letter: "w \<in> set whitespace \<Longrightarrow> x \<in> set w \<Longrightarrow> x \<notin> letters"
  using whitespace_bytes by (auto simp: letters_def)

lemma lower_char_letter: "lower_char x \<in> letters \<Longrightarrow> x \<in> letters"
proof (cases "x \<in> set ascii_uppercase")
  case True
  then show ?thesis by (simp add: letters_def)
next
  case False
  have "length ascii_uppercase = length ascii_lowercase"
    by (simp add: ascii_lowercase_def ascii_uppercase_def)
  with False have "map_of (zip ascii_uppercase ascii_lowercase) x = None"
    by (simp add: map_of_zip_is_None)
  then have "lower_char x = x" by (simp add: lower_char_def)
  moreover assume "lower_char x \<in> letters"
  ultimately show ?thesis by simp
qed

lemma lstrip_letter:
  assumes "s \<noteq> []" and "hd s \<in> letters"
  shows "lstrip s = s"
proof -
  have "\<not> startswith s w" if w: "w \<in> set whitespace" for w
  proof
    assume p: "startswith s w"
    from w have "w \<noteq> []" by (rule whitespace_nonempty)
    with p assms(1) have "hd w = hd s"
      by (cases w; cases s) (auto simp: startswith_def)
    moreover from \<open>w \<noteq> []\<close> have "hd w \<in> set w" by simp
    ultimately show False using whitespace_no_letter [OF w] assms(2) by metis
  qed
  then have "find (startswith s) whitespace = None"
    by (simp add: find_None_iff)
  then show ?thesis by (simp add: lstrip.simps [of s])
qed

lemma rstrip_letters:
  "set p \<subseteq> letters \<Longrightarrow> s = p @ r \<Longrightarrow> \<exists>r'. rstrip s = p @ r'"
proof (induction s arbitrary: r rule: rstrip.induct)
  case (1 s)
  show ?case
  proof (cases "find (endswith s) whitespace")
    case None
    then have "rstrip s = s" by (simp add: rstrip.simps [of s])
    with "1.prems"(2) show ?thesis by blast
  next
    case (Some w)
    then have w: "w \<in> set whitespace" and e: "endswith s w"
      by (auto simp: find_Some_iff)
    from w have ne: "w \<noteq> []" by (rule whitespace_nonempty)
    from e have le: "length w \<le> length s" and d: "drop (length s - length w) s = w"
      by (simp_all add: endswith_def)
    have short: "length w \<le> length r"
    proof (rule ccontr)
      assume "\<not> length w \<le> length r"
      with le "1.prems"(2) have k: "length s - length w < length p" by simp
      with d "1.prems"(2) have "w = drop (length s - length w) p @ r" by simp
      moreover from k have "drop (length s - length w) p \<noteq> []" by simp
      ultimately have "hd w \<in> set (drop (length s - length w) p)"
        by (metis hd_append2 hd_in_set)
      then have "hd w \<in> set p" by (rule in_set_dropD)
      with "1.prems"(1) have "hd w \<in> letters" by blast
      moreover from ne have "hd w \<in> set w" by simp
      ultimately show False using whitespace_no_letter [OF w] by blast
    qed
    with "1.prems"(2) have t: "take (length s - length w) s = p @ take (length r - length w) r"
      by simp
    from "1.IH" [OF Some "1.prems"(1) t] obtain r' where
      "rstrip (take (length s - length w) s) = p @ r'" by blast
    moreover from Some have "rstrip s = rstrip (take (length s - length w) s)"
      by (simp add: rstrip.simps [of s])
    ultimately show ?thesis by simp
  qed
qed

lemma leading_where_test:
  assumes "leading_where c"
  shows "startswith (lower (strip c)) ''where''"
proof -
  let ?p = "take 5 c"
  from assms have l: "lower ?p = ''where''" by (simp add: leading_where_def)
  then have "length (lower ?p) = length ''where''" by (simp only:)
  then have len: "length ?p = 5" by (simp add: lower_def)
  have "set (lower ?p) \<subseteq> letters"
    by (simp add: l letters_def ascii_lowercase_def)
  then have p: "set ?p \<subseteq> letters"
    by (auto simp: lower_def dest: lower_char_letter)
  from len have cne: "c \<noteq> []" by auto
  with len have "hd c \<in> set ?p" by (cases c) auto
  with p have "hd c \<in> letters" by blast
  with cne have "lstrip c = c" by (rule lstrip_letter)
  moreover have "c = ?p @ drop 5 c" by simp
  from rstrip_letters [OF p this] obtain r' where "rstrip c = ?p @ r'" by blast
  ultimately have "strip c = ?p @ r'" by (simp add: strip_def)
  then have "lower (strip c) = ''where'' @ lower r'"
    using l by (simp add: lower_def)
  then show ?thesis by (simp add: startswith_def)
qed

text \<open>
  C5, amended. For a clause that begins with a WHERE token, or does not begin with the
  letters \<^verbatim>\<open>where\<close> at all: the count query is the fixed head followed by the clause,
  with \<^verbatim>\<open>WHERE \<close> put in front exactly when the clause does not begin with a WHERE
  token; it holds the WHERE tokens of the clause and the one put in front; so it holds
  exactly one whenever the clause holds none apart from a leading one.
\<close>

theorem count_query_where:
  assumes "leading_where c \<or> \<not> startswith (lower (strip c)) ''where''"
  shows "count_query c =
           ''SELECT COUNT(*) FROM customer_info '' @ (if leading_where c then c else ''WHERE '' @ c)
       \<and> where_tokens (count_query c) = where_tokens c + (if leading_where c then 0 else 1)
       \<and> (where_tokens c = (if leading_where c then 1 else 0) \<longrightarrow>
            where_tokens (count_query c) = 1)"
proof -
  from assms leading_where_test
  have eq: "startswith (lower (strip c)) ''where'' = leading_where c" by blast
  have q: "count_query c =
           ''SELECT COUNT(*) FROM customer_info '' @ (if leading_where c then c else ''WHERE '' @ c)"
    by (simp only: count_query_def eq)
  have t: "where_tokens (count_query c) = where_tokens c + (if leading_where c then 0 else 1)"
    by (simp only: where_tokens_count_query eq)
  from q t show ?thesis by simp
qed

theorem count_query_where_witness:
  "count_query ''phone = 12345'' = ''SELECT COUNT(*) FROM customer_info WHERE phone = 12345''
   \<and> where_tokens (count_query ''phone = 12345'') = 1
   \<and> count_query ''where phone = 12345'' = ''SELECT COUNT(*) FROM customer_info where phone = 12345''
   \<and> where_tokens (count_query ''where phone = 12345'') = 1"
proof -
  have a: "leading_where ''phone = 12345'' \<or> \<not> startswith (lower (strip ''phone = 12345'')) ''where''"
    by code_simp
  have a': "\<not> leading_where ''phone = 12345''" by code_simp
  have a0: "where_tokens ''phone = 12345'' = (if leading_where ''phone = 12345'' then 1 else 0)"
    by code_simp
  have b: "leading_where ''where phone = 12345''
           \<or> \<not> startswith (lower (strip ''where phone = 12345'')) ''where''"
    by code_simp
  have b': "leading_where ''where phone = 12345''" by code_simp
  have b1: "where_tokens ''where phone = 12345''
              = (if leading_where ''where phone = 12345'' then 1 else 0)"
    by code_simp
  note A = count_query_where [OF a] and B = count_query_where [OF b]
  from A [THEN conjunct1] a'
  have 1: "count_query ''phone = 12345''
             = ''SELECT COUNT(*) FROM customer_info WHERE phone = 12345''" by simp
  from A [THEN conjunct2, THEN conjunct2] a0
  have 2: "where_tokens (count_query ''phone = 12345'') = 1" by blast
  from B [THEN conjunct1] b'
  have 3: "count_query ''where phone = 12345''
             = ''SELECT COUNT(*) FROM customer_info where phone = 12345''" by simp
  from B [THEN conjunct2, THEN conjunct2] b1
  have 4: "where_tokens (count_query ''where phone = 12345'') = 1" by blast
  from 1 2 3 4 show ?thesis by blast
qed

theorem count_query_where_counterexample:
  "upper (strip ''WHERE id IN (SELECT id FROM t WHERE a = 1)'') \<noteq> ''NONE''
   \<and> where_tokens (count_query ''WHERE id IN (SELECT id FROM t WHERE a = 1)'') = 2"
  by code_simp

section \<open>Exceptions that leave the validation node\<close>

text \<open>
  C1. The validation node does raise: the model is invoked on line 58, before the
  \<^verbatim>\<open>try\<close> of line 72, so an exception of the model call leaves the node as it is,
  where the resolution node catches the exception of its chain call.
\<close>

theorem validate_model_failure_escapes:
  "validate_customer_node
     (stand_in (Inl (Exn ''ConnectionError'' ''model unreachable'')) (Inr ''[(3,)]'') (Inr None))
     (initial_state ''I am Bob'')
   = ([Model (WHERE_PROMPT ''I am Bob'')], Inl (Exn ''ConnectionError'' ''model unreachable''))"
  by (simp add: validate_customer_node_def last_content_def sample_state stand_in_def)

text \<open>
  C3. The validation node does not return a state for every input: when the model call
  raises, the node returns no state at all, so none with status \<open>Validated\<close> or
  \<open>Not_found\<close>. The call sits before the \<^verbatim>\<open>try\<close> whose handler would have returned
  \<open>Not_found\<close>.
\<close>

theorem validate_returns_no_state:
  "\<not> (\<exists>st'. snd (validate_customer_node
                   (stand_in (Inl (Exn ''ConnectionError'' ''model unreachable''))
                      (Inr ''[(3,)]'') (Inr None))
                   (initial_state ''I am Bob'')) = Inr st')"
proof -
  let ?env = "stand_in (Inl (Exn ''ConnectionError'' ''model unreachable'')) (Inr ''[(3,)]'') (Inr None)"
  let ?st = "initial_state ''I am Bob''"
  have ne: "messages ?st \<noteq> []" by (simp add: sample_state)
  have llm: "llm_invoke ?env (WHERE_PROMPT (content (last (messages ?st))))
               = Inl (Exn ''ConnectionError'' ''model unreachable'')"
    by (simp add: stand_in_def)
  from validate_model_raises [OF ne llm] show ?thesis by simp
qed

end
